theory Spec2Isabelle
  imports Complex_Main
begin

section \<open>JavaScript values used by both scripts\<close>

text \<open>
  Timestamps (\<^verbatim>\<open>Date.now()\<close>) are integers in milliseconds. An optional
  string field of a JSON object is a \<open>string option\<close>; JavaScript reads it as true
  in a condition when it is present and not empty.
\<close>

definition truthy :: "string option \<Rightarrow> bool" where
  "truthy v = (case v of None \<Rightarrow> False | Some t \<Rightarrow> t \<noteq> [])"

text \<open>\<^verbatim>\<open>a || b\<close> on an optional string and a string.\<close>

definition or_else :: "string option \<Rightarrow> string \<Rightarrow> string" where
  "or_else v d = (case v of None \<Rightarrow> d | Some t \<Rightarrow> (if t = [] then d else t))"

text \<open>
  A \<^verbatim>\<open>classList\<close> is a list of class names without repetition;
  assigning \<^verbatim>\<open>className\<close> replaces the whole list.
\<close>

definition classList_add :: "string \<Rightarrow> string list \<Rightarrow> string list" where
  "classList_add c cs = (if c \<in> set cs then cs else cs @ [c])"

definition classList_remove :: "string \<Rightarrow> string list \<Rightarrow> string list" where
  "classList_remove c cs = filter (\<lambda>d. d \<noteq> c) cs"

text \<open>\<^verbatim>\<open>s.includes(p)\<close>: \<open>p\<close> occurs in \<open>s\<close> as a contiguous substring.\<close>

fun str_includes :: "string \<Rightarrow> string \<Rightarrow> bool" where
  "str_includes [] p = (p = [])"
| "str_includes (c # cs) p = (take (length p) (c # cs) = p \<or> str_includes cs p)"

text \<open>
  Numbers are read as exact rationals: the rounding of IEEE doubles is not modelled.
  \<^verbatim>\<open>Math.round\<close> rounds to the nearest integer, halves upwards.
\<close>

definition Math_round :: "rat \<Rightarrow> int" where
  "Math_round q = \<lfloor>q + 1 / 2\<rfloor>"

text \<open>The decimal rendering of a number inside a template literal.\<close>

function show_nat :: "nat \<Rightarrow> string" where
  "show_nat n =
     (if n < 10 then [''0123456789'' ! n]
      else show_nat (n div 10) @ [''0123456789'' ! (n mod 10)])"
  by pat_completeness auto
termination
  by (relation "measure id") auto

declare show_nat.simps [simp del]

text \<open>What a script throws: an \<^verbatim>\<open>Error\<close> with its message, or the
  \<^verbatim>\<open>TypeError\<close> of reading a property of \<^verbatim>\<open>null\<close> or
  \<^verbatim>\<open>undefined\<close>, or whatever \<^verbatim>\<open>drawImage\<close> throws.\<close>

datatype js_error = Error string | TypeError string | DrawError string

fun error_message :: "js_error \<Rightarrow> string" where
  "error_message (Error m) = m"
| "error_message (TypeError m) = m"
| "error_message (DrawError m) = m"

text \<open>An object with the fields \<^verbatim>\<open>x, y, width, height\<close>.\<close>

record 'a box =
  box_x :: 'a
  box_y :: 'a
  box_width :: 'a
  box_height :: 'a

text \<open>The fields of a \<^verbatim>\<open>DOMRect\<close> that the scripts read.\<close>

record rect =
  rect_left :: rat
  rect_top :: rat
  rect_width :: rat
  rect_height :: rat

text \<open>
  What the browser supplies during one capture cycle: whether the video element has
  enough data, its intrinsic dimensions, the client rectangles of the video and of the
  oval element, whether \<^verbatim>\<open>drawImage\<close> returns (or throws, with a message), what
  \<^verbatim>\<open>toDataURL\<close> returns, the window's inner size, and whether the
  \<^verbatim>\<open>flutter_inappwebview\<close> bridge exists.
\<close>

record browser =
  video_ready :: bool
  videoWidth :: nat
  videoHeight :: nat
  videoRect :: rect
  ovalRect :: rect
  drawImage_throws :: "string option"
  toDataURL :: string
  innerWidth :: nat
  innerHeight :: nat
  flutter_inappwebview :: bool

text \<open>The object \<^verbatim>\<open>captureFrame\<close> returns: the encoded image and the oval.\<close>

record frameData =
  image :: string
  ovalGuide :: "int box"

section \<open>The monitoring script (src/unnamed/part_000)\<close>

subsection \<open>Constants and state\<close>

definition REQUIRED_LIVE_FRAMES :: nat where
  "REQUIRED_LIVE_FRAMES = 5"

definition FRAME_INTERVAL :: nat where
  "FRAME_INTERVAL = 200"

definition SESSION_TIMEOUT :: nat where
  "SESSION_TIMEOUT = 10000"

definition STATUS_DEBOUNCE_TIME :: int where
  "STATUS_DEBOUNCE_TIME = 1000"

datatype AUTH_STATE = MONITORING | AUTHENTICATED | TIMEOUT

text \<open>
  The object handed to \<^verbatim>\<open>notifyFlutter\<close>: its status, its message and its
  timestamp.
\<close>

datatype notification = Notification string string int

text \<open>The callbacks the script passes to \<^verbatim>\<open>setTimeout\<close>.\<close>

datatype callback = StartAuthentication | SessionExpired

text \<open>
  The server's JSON answer. \<open>is_live\<close> is read through \<^verbatim>\<open>!result.is_live\<close>,
  so an absent field is \<open>False\<close>.
\<close>

record result =
  error :: "string option"
  is_live :: bool
  message :: string
  confidence :: rat
  liveness_message :: "string option"
  recognized_name :: "string option"
  processed_image :: "string option"

text \<open>
  The script's global variables, the parts of the page it writes, the timers it has armed
  and not cleared (handle, delay, callback) and the objects it has handed to
  \<^verbatim>\<open>notifyFlutter\<close>. A timer handle is a positive number, so a stored handle is
  read as true. \<open>processedImageContainer\<close> holds the base64 payload of the image shown,
  \<open>requests\<close> the bodies posted to \<^verbatim>\<open>/authenticate\<close> (frame and timestamp),
  \<open>trackStops\<close> the number of \<^verbatim>\<open>stop()\<close> calls made on the camera stream's
  tracks. One call reads the clock once: a timestamp written later in the same call
  carries the same reading.
\<close>

record page =
  isRunning :: bool
  authenticationLoop :: "nat option"
  liveFrameCount :: nat
  sessionTimer :: "nat option"
  currentState :: AUTH_STATE
  lastStatusUpdate :: int
  ovalBorder :: "string list"
  statusDisplay_className :: "string list"
  statusDisplay_textContent :: string
  statusHint_textContent :: string
  progressDots :: "bool list"
  processedImageContainer :: string
  timeoutOverlay_active :: bool
  timers :: "(nat \<times> nat \<times> callback) list"
  nextTimer :: nat
  notified :: "notification list"
  requests :: "(frameData \<times> int) list"
  trackStops :: nat

definition setTimeout :: "callback \<Rightarrow> nat \<Rightarrow> page \<Rightarrow> nat \<times> page" where
  "setTimeout cb delay s =
     (nextTimer s,
      s\<lparr>timers := timers s @ [(nextTimer s, delay, cb)], nextTimer := Suc (nextTimer s)\<rparr>)"

definition clearTimeout :: "nat \<Rightarrow> page \<Rightarrow> page" where
  "clearTimeout h s = s\<lparr>timers := filter (\<lambda>t. fst t \<noteq> h) (timers s)\<rparr>"

definition notifyFlutter :: "notification \<Rightarrow> page \<Rightarrow> page" where
  "notifyFlutter m s = s\<lparr>notified := notified s @ [m]\<rparr>"

subsection \<open>Session timer\<close>

definition handleTimeout :: "int \<Rightarrow> page \<Rightarrow> page" where
  "handleTimeout now s =
     (let s1 = s\<lparr>currentState := TIMEOUT, isRunning := False\<rparr>;
          s2 = (case authenticationLoop s1 of
                  Some h \<Rightarrow> (clearTimeout h s1)\<lparr>authenticationLoop := None\<rparr>
                | None \<Rightarrow> s1);
          s3 = s2\<lparr>timeoutOverlay_active := True\<rparr>
      in notifyFlutter (Notification ''timeout'' ''Face verification timeout'' now) s3)"

text \<open>The callback armed by \<^verbatim>\<open>startSession\<close>.\<close>

definition sessionExpired :: "int \<Rightarrow> page \<Rightarrow> page" where
  "sessionExpired now s =
     (if currentState s \<noteq> AUTHENTICATED then handleTimeout now s else s)"

definition startSession :: "page \<Rightarrow> page" where
  "startSession s =
     (let s1 = (case sessionTimer s of Some h \<Rightarrow> clearTimeout h s | None \<Rightarrow> s);
          s2 = s1\<lparr>currentState := MONITORING\<rparr>;
          (h, s3) = setTimeout SessionExpired SESSION_TIMEOUT s2
      in s3\<lparr>sessionTimer := Some h\<rparr>)"

subsection \<open>updateFacePosition\<close>

text \<open>The inner \<^verbatim>\<open>resetUI\<close> of \<^verbatim>\<open>updateFacePosition\<close>.\<close>

definition resetUI_inner :: "int \<Rightarrow> page \<Rightarrow> page" where
  "resetUI_inner currentTime s =
     (if currentTime - lastStatusUpdate s \<ge> STATUS_DEBOUNCE_TIME then
        s\<lparr>liveFrameCount := 0,
          ovalBorder := classList_remove ''no-face''
             (classList_remove ''success'' (classList_remove ''analyzing'' (ovalBorder s))),
          statusDisplay_className := [''status''],
          statusHint_textContent := [],
          progressDots := map (\<lambda>d. False) (progressDots s),
          lastStatusUpdate := currentTime\<rparr>
      else s)"

definition updateProgress :: "page \<Rightarrow> page" where
  "updateProgress s =
     (let progress = min (liveFrameCount s) 4
      in s\<lparr>progressDots := map (\<lambda>i. i < progress) [0 ..< length (progressDots s)]\<rparr>)"

definition one_face_only :: string where
  "one_face_only = ''Keep only one face in the oval''"

text \<open>
  The branch taken when the frame counts as live and the shorter debounce has elapsed.
\<close>

definition live_branch :: "int \<Rightarrow> result \<Rightarrow> page \<Rightarrow> page" where
  "live_branch currentTime r s =
     (let s1 = s\<lparr>ovalBorder := classList_remove ''no-face''
                     (classList_add ''analyzing'' (ovalBorder s)),
                  statusDisplay_className :=
                     classList_add ''analyzing'' (statusDisplay_className s),
                  statusDisplay_textContent := or_else (liveness_message r) (message r),
                  lastStatusUpdate := currentTime\<rparr>
      in if currentState s1 \<noteq> AUTHENTICATED then
           (let s2 = updateProgress (s1\<lparr>liveFrameCount := Suc (liveFrameCount s1)\<rparr>)
            in if liveFrameCount s2 \<ge> REQUIRED_LIVE_FRAMES then
                 (let s3 = s2\<lparr>currentState := AUTHENTICATED,
                              ovalBorder := classList_add ''success''
                                 (classList_remove ''analyzing'' (ovalBorder s2)),
                              statusDisplay_textContent := ''Welcome!'',
                              statusDisplay_className := [''status'', ''success''],
                              statusHint_textContent := ''Face verified successfully'',
                              progressDots := map (\<lambda>d. True) (progressDots s2)\<rparr>;
                      s4 = notifyFlutter
                             (Notification ''success'' ''Authentication successful'' currentTime) s3
                  in case authenticationLoop s4 of
                       Some h \<Rightarrow> (clearTimeout h s4)\<lparr>authenticationLoop := None\<rparr>
                     | None \<Rightarrow> s4)
               else
                 s2\<lparr>statusDisplay_textContent := ''Face Detected'',
                    statusDisplay_className := [''status'', ''analyzing''],
                    statusHint_textContent := ''Verifying...''\<rparr>)
         else s1)"

text \<open>The branch taken when the frame does not count as live and the debounce has elapsed.\<close>

definition not_live_branch :: "int \<Rightarrow> result \<Rightarrow> page \<Rightarrow> page" where
  "not_live_branch currentTime r s =
     (let s1 = resetUI_inner currentTime s
      in s1\<lparr>ovalBorder := classList_add ''no-face'' (ovalBorder s1),
            statusDisplay_className := classList_add ''error'' (statusDisplay_className s1),
            statusDisplay_textContent := or_else (liveness_message r) (message r),
            statusHint_textContent :=
              (if liveness_message r = Some one_face_only
               then ''Only one person should be in frame''
               else statusHint_textContent s1),
            lastStatusUpdate := currentTime\<rparr>)"

text \<open>
  \<^verbatim>\<open>updateFacePosition(result)\<close> at the time \<open>currentTime\<close> read from the clock.
  Its callers have read a field of \<open>result\<close> before the call, so \<open>result\<close> is an object.
\<close>

definition updateFacePosition :: "int \<Rightarrow> result \<Rightarrow> page \<Rightarrow> page" where
  "updateFacePosition currentTime r s =
     (if truthy (error r) then s
      else
        (let s1 =
           (if \<not> is_live r \<or> liveness_message r = Some one_face_only then
              (if currentTime - lastStatusUpdate s \<ge> STATUS_DEBOUNCE_TIME
               then not_live_branch currentTime r s else s)
            else
              (if currentTime - lastStatusUpdate s \<ge> STATUS_DEBOUNCE_TIME div 2
               then live_branch currentTime r s else s))
         in if truthy (processed_image r)
            then s1\<lparr>processedImageContainer := the (processed_image r)\<rparr>
            else s1))"

text \<open>Verdicts fed one per cycle, each with the time at which it is processed.\<close>

fun feed :: "(int \<times> result) list \<Rightarrow> page \<Rightarrow> page" where
  "feed [] s = s"
| "feed (v # vs) s = feed vs (updateFacePosition (fst v) (snd v) s)"

text \<open>The same run, keeping every state it passes through.\<close>

fun trace :: "(int \<times> result) list \<Rightarrow> page \<Rightarrow> page list" where
  "trace [] s = [s]"
| "trace (v # vs) s = s # trace vs (updateFacePosition (fst v) (snd v) s)"

text \<open>
  The globals as the script declares them, on a page with \<open>dots\<close> progress dots, and
  the state \<^verbatim>\<open>initializeCamera\<close> sets up once the camera plays, before it enters
  the loop.
\<close>

definition initial_page :: "nat \<Rightarrow> page" where
  "initial_page dots =
     \<lparr>isRunning = False, authenticationLoop = None, liveFrameCount = 0,
      sessionTimer = None, currentState = MONITORING, lastStatusUpdate = 0,
      ovalBorder = [''oval-border''], statusDisplay_className = [''status''],
      statusDisplay_textContent = [], statusHint_textContent = [],
      progressDots = replicate dots False, processedImageContainer = [],
      timeoutOverlay_active = False, timers = [], nextTimer = 1, notified = [],
      requests = [], trackStops = 0\<rparr>"

definition camera_ready :: "page \<Rightarrow> page" where
  "camera_ready s =
     startSession
       (s\<lparr>isRunning := True, currentState := MONITORING, liveFrameCount := 0,
          statusDisplay_textContent := ''Position your face in the oval'',
          statusDisplay_className := [''status''],
          processedImageContainer := []\<rparr>)"

text \<open>
  Which answers take which branch of \<^verbatim>\<open>updateFacePosition\<close>: a live verdict is
  an answer without error that the server marks live and that does not carry the
  several-faces message; a verdict that is not live is any other answer without error.
\<close>

definition live_verdict :: "result \<Rightarrow> bool" where
  "live_verdict r =
     (is_live r \<and> liveness_message r \<noteq> Some one_face_only \<and> (truthy (error r) = False))"

definition not_live_verdict :: "result \<Rightarrow> bool" where
  "not_live_verdict r =
     ((is_live r = False \<or> liveness_message r = Some one_face_only) \<and> (truthy (error r) = False))"

text \<open>A server answer marked live with the given confidence, and one with no face.\<close>

definition Live :: "rat \<Rightarrow> result" where
  "Live c = \<lparr>error = None, is_live = True, message = ''Face detected'', confidence = c,
             liveness_message = None, recognized_name = None, processed_image = None\<rparr>"

definition NoFace :: result where
  "NoFace = \<lparr>error = None, is_live = False, message = ''No face detected'', confidence = 0,
             liveness_message = None, recognized_name = None, processed_image = None\<rparr>"

text \<open>
  Every verdict of the list is processed at least half the debounce time after the status
  update before it.
\<close>

fun spaced :: "int \<Rightarrow> (int \<times> result) list \<Rightarrow> bool" where
  "spaced t0 [] = True"
| "spaced t0 (v # vs) = (fst v - t0 \<ge> STATUS_DEBOUNCE_TIME div 2 \<and> spaced (fst v) vs)"

subsection \<open>captureFrame\<close>

text \<open>
  The oval in video pixels, as \<^verbatim>\<open>captureFrame\<close> computes it from the video's
  intrinsic size and the two client rectangles. The quotients by the displayed width and
  height are the rationals' (JavaScript's are \<^verbatim>\<open>Infinity\<close> or
  \<^verbatim>\<open>NaN\<close> when the video is displayed with no width or no height).
\<close>

definition ovalData :: "browser \<Rightarrow> int box" where
  "ovalData b =
     (let vw = of_nat (videoWidth b); vh = of_nat (videoHeight b);
          vr = videoRect b; ov = ovalRect b;
          videoAspect = vw / vh;
          containerAspect = rect_width vr / rect_height vr;
          scale = min (vw / rect_width vr) (vh / rect_height vr);
          xOffset = (if containerAspect > videoAspect
                     then (rect_width vr - rect_height vr * videoAspect) / 2 else 0);
          yOffset = (if containerAspect > videoAspect
                     then 0 else (rect_height vr - rect_width vr / videoAspect) / 2);
          targetOvalHeight = (if videoAspect \<ge> 1 then vh * (3 / 4)
                              else (vw * (3 / 4)) * (133 / 100));
          targetOvalWidth = (if videoAspect \<ge> 1 then (vh * (3 / 4)) * (3 / 4)
                             else vw * (3 / 4));
          targetOvalWidth' = min targetOvalWidth (vw * (17 / 20));
          targetOvalHeight' = min targetOvalHeight (vh * (17 / 20))
      in \<lparr>box_x = max 0 (Math_round ((rect_left ov - rect_left vr - xOffset) * scale)),
          box_y = max 0 (Math_round ((rect_top ov - rect_top vr - yOffset) * scale)),
          box_width = Math_round targetOvalWidth',
          box_height = Math_round targetOvalHeight'\<rparr>)"

definition jpeg_prefix :: string where
  "jpeg_prefix = ''data:image/jpeg''"

text \<open>
  \<^verbatim>\<open>captureFrame\<close> throws when a video dimension is zero and returns
  \<^verbatim>\<open>null\<close> (\<open>None\<close>) when drawing throws or the encoded payload is empty or
  not a JPEG data URL.
\<close>

definition captureFrame :: "browser \<Rightarrow> js_error + frameData option" where
  "captureFrame b =
     (if videoWidth b = 0 \<or> videoHeight b = 0
      then Inl (Error ''Video dimensions not available'')
      else if drawImage_throws b \<noteq> None then Inr None
      else if toDataURL b = [] \<or> take (length jpeg_prefix) (toDataURL b) \<noteq> jpeg_prefix
      then Inr None
      else Inr (Some \<lparr>image = toDataURL b, ovalGuide = ovalData b\<rparr>))"

subsection \<open>startAuthentication\<close>

text \<open>The global \<^verbatim>\<open>resetUI\<close>.\<close>

definition resetUI :: "page \<Rightarrow> page" where
  "resetUI s =
     s\<lparr>ovalBorder := classList_remove ''no-face''
          (classList_remove ''success'' (classList_remove ''analyzing'' (ovalBorder s))),
       statusDisplay_className := [''status''],
       statusDisplay_textContent := [],
       statusHint_textContent := [],
       progressDots := map (\<lambda>d. False) (progressDots s)\<rparr>"

text \<open>\<^verbatim>\<open>authenticationLoop = setTimeout(startAuthentication, FRAME_INTERVAL)\<close>\<close>

definition schedule_next :: "page \<Rightarrow> page" where
  "schedule_next s =
     (let (h, s1) = setTimeout StartAuthentication FRAME_INTERVAL s
      in s1\<lparr>authenticationLoop := Some h\<rparr>)"

text \<open>The \<^verbatim>\<open>catch\<close> block, and the statement after the \<^verbatim>\<open>try\<close>.\<close>

definition catch_block :: "string \<Rightarrow> int \<Rightarrow> page \<Rightarrow> page" where
  "catch_block msg now s =
     (let s1 = notifyFlutter (Notification ''error'' msg now) s
      in if str_includes msg ''Server error:'' then resetUI s1 else s1)"

definition after_try :: "page \<Rightarrow> page" where
  "after_try s =
     (if isRunning s \<and> currentState s \<noteq> AUTHENTICATED then schedule_next s else s)"

text \<open>
  What becomes of the request: the promise of \<^verbatim>\<open>fetch\<close> or of
  \<^verbatim>\<open>response.json()\<close> rejects with a message, or the response has a status
  that is not ok, or its body is JSON (\<open>None\<close> for \<^verbatim>\<open>null\<close>).
\<close>

datatype response = Rejected string | HttpStatus nat | Json "result option"

text \<open>
  \<^verbatim>\<open>startAuthentication\<close> in two halves, since other callbacks run while it
  awaits the response: up to the request, and from the response on. The first half either
  returns or is suspended with the request in flight.
\<close>

datatype cycle = Returned page | Suspended page

definition startAuthentication_begin :: "browser \<Rightarrow> int \<Rightarrow> page \<Rightarrow> cycle" where
  "startAuthentication_begin b now s =
     (if \<not> isRunning s then Returned s
      else if \<not> video_ready b then Returned (schedule_next s)
      else if currentState s = AUTHENTICATED then Returned s
      else case captureFrame b of
             Inl e \<Rightarrow> Returned (after_try (catch_block (error_message e) now s))
           | Inr None \<Rightarrow> Returned (schedule_next s)
           | Inr (Some f) \<Rightarrow> Suspended (s\<lparr>requests := requests s @ [(f, now)]\<rparr>))"

definition startAuthentication_resume :: "response \<Rightarrow> int \<Rightarrow> page \<Rightarrow> page" where
  "startAuthentication_resume resp now s =
     (case resp of
        Rejected msg \<Rightarrow> after_try (catch_block msg now s)
      | HttpStatus st \<Rightarrow>
          after_try (catch_block (''Server error: '' @ show_nat st) now
            (notifyFlutter (Notification ''error'' (''Server error: '' @ show_nat st) now) s))
      | Json None \<Rightarrow>
          after_try (catch_block ''Cannot read properties of null (reading 'error')'' now s)
      | Json (Some r) \<Rightarrow>
          (if truthy (error r)
           then schedule_next (notifyFlutter (Notification ''error'' (the (error r)) now) s)
           else after_try (updateFacePosition now r s)))"

text \<open>One whole cycle when nothing else runs in between.\<close>

definition startAuthentication :: "browser \<Rightarrow> response \<Rightarrow> int \<Rightarrow> int \<Rightarrow> page \<Rightarrow> page" where
  "startAuthentication b resp now now' s =
     (case startAuthentication_begin b now s of
        Returned s1 \<Rightarrow> s1
      | Suspended s1 \<Rightarrow> startAuthentication_resume resp now' s1)"

section \<open>The configurable script (src/app.js)\<close>

subsection \<open>Configuration and state\<close>

definition FRAMES_REQUIRED :: nat where
  "FRAMES_REQUIRED = 3"

definition MIN_FRAME_INTERVAL :: nat where
  "MIN_FRAME_INTERVAL = 200"

definition RETRY_DELAY :: nat where
  "RETRY_DELAY = 1000"

definition MIN_LIVENESS_CONFIDENCE :: rat where
  "MIN_LIVENESS_CONFIDENCE = 3 / 5"

datatype AUTH_STATE_app = WAITING | ANALYZING | AUTHENTICATED_app | ERROR

text \<open>
  The \<^verbatim>\<open>state\<close> object, the elements the script writes, and what it has asked
  of the browser: \<open>scheduled\<close> holds the delays of the timers that will request
  \<^verbatim>\<open>processFrame\<close>, \<open>ended\<close> the camera tracks whose
  \<^verbatim>\<open>readyState\<close> is \<^verbatim>\<open>ended\<close> (in the order in which they
  ended), \<open>handler_calls\<close> the objects passed to the bridge and \<open>posted\<close> the
  images sent to the remote service. The stream is the list of its tracks.
\<close>

record app_state =
  state_isRunning :: bool
  state_isProcessing :: bool
  state_currentState :: AUTH_STATE_app
  state_framesCollected :: nat
  state_stream :: "nat list option"
  state_lastProcessedTime :: int
  state_lastUIUpdate :: int
  ovalState_current :: string
  ovalState_transitioning :: bool
  ovalState_lastUpdate :: int
  elements_ovalBorder :: "string list"
  elements_statusDisplay_classList :: "string list"
  elements_statusDisplay_textContent :: string
  elements_statusHint_textContent :: string
  scheduled :: "nat list"
  ended :: "nat list"
  handler_calls :: "notification list"
  posted :: "string list"

subsection \<open>updateUI\<close>

definition classList_remove_all :: "string list \<Rightarrow> string list \<Rightarrow> string list" where
  "classList_remove_all cs l = filter (\<lambda>d. d \<notin> set cs) l"

text \<open>The class the oval takes for the new state, and the classes added to the status.\<close>

fun newOvalState :: "AUTH_STATE_app \<Rightarrow> string \<Rightarrow> string" where
  "newOvalState ANALYZING m = ''analyzing''"
| "newOvalState AUTHENTICATED_app m = ''success''"
| "newOvalState ERROR m = ''error''"
| "newOvalState WAITING m = (if str_includes m ''Processing'' then ''detected'' else ''no-face'')"

fun statusClasses :: "AUTH_STATE_app \<Rightarrow> string list" where
  "statusClasses ANALYZING = [''analyzing'', ''visible'']"
| "statusClasses AUTHENTICATED_app = [''success'', ''visible'']"
| "statusClasses ERROR = [''error'', ''visible'']"
| "statusClasses WAITING = [''visible'']"

text \<open>
  \<^verbatim>\<open>updateUI(newState, message, hint)\<close> with the clock reading \<open>now\<close>. The
  function sleeps between its steps; the model gives the state once it has returned.
\<close>

definition updateUI ::
  "int \<Rightarrow> AUTH_STATE_app \<Rightarrow> string \<Rightarrow> string \<Rightarrow> app_state \<Rightarrow> app_state" where
  "updateUI now newState msg hint s =
     (if state_currentState s = AUTHENTICATED_app then s
      else if now - state_lastUIUpdate s < 300 then s
      else
        s\<lparr>state_lastUIUpdate := now,
          elements_ovalBorder :=
            classList_add (newOvalState newState msg)
              (classList_remove_all
                 [''analyzing'', ''success'', ''no-face'', ''detected'', ''error'']
                 (elements_ovalBorder s)),
          elements_statusDisplay_classList :=
            fold classList_add (statusClasses newState)
              (classList_remove_all
                 [''analyzing'', ''success'', ''error'', ''no-face'', ''visible'']
                 (elements_statusDisplay_classList s)),
          ovalState_current := newOvalState newState msg,
          ovalState_lastUpdate := now,
          elements_statusDisplay_textContent :=
            (if msg = [] then ''Position your face in the oval'' else msg),
          elements_statusHint_textContent := hint,
          state_currentState := newState,
          ovalState_transitioning := False\<rparr>)"

subsection \<open>Position checks\<close>

text \<open>
  The value of a division: finite, or what JavaScript gives for a zero divisor. Signed
  zeros are not told apart: a zero divisor is read as \<open>+0\<close>.
\<close>

datatype jsnum = Fin rat | PosInf | NegInf | NaN

definition js_div :: "rat \<Rightarrow> rat \<Rightarrow> jsnum" where
  "js_div a c =
     (if c \<noteq> 0 then Fin (a / c)
      else if a > 0 then PosInf else if a < 0 then NegInf else NaN)"

text \<open>Multiplication by a positive constant, and the comparisons with a constant.\<close>

fun js_times :: "jsnum \<Rightarrow> rat \<Rightarrow> jsnum" where
  "js_times (Fin q) c = Fin (q * c)"
| "js_times v c = v"

fun js_gt :: "jsnum \<Rightarrow> rat \<Rightarrow> bool" where
  "js_gt (Fin q) c = (q > c)"
| "js_gt PosInf c = True"
| "js_gt v c = False"

fun js_lt :: "jsnum \<Rightarrow> rat \<Rightarrow> bool" where
  "js_lt (Fin q) c = (q < c)"
| "js_lt NegInf c = True"
| "js_lt v c = False"

text \<open>\<^verbatim>\<open>Math.PI\<close>, the double nearest to \<open>\<pi>\<close>.\<close>

definition Math_PI :: rat where
  "Math_PI = 884279719003555 / 281474976710656"

text \<open>
  An argument that is \<^verbatim>\<open>null\<close> or \<^verbatim>\<open>undefined\<close> is \<open>None\<close>;
  reading a field of it throws.
\<close>

definition calculateHeadSizeRatio :: "rat box option \<Rightarrow> rat box option \<Rightarrow> js_error + jsnum" where
  "calculateHeadSizeRatio oval faceRect =
     (case faceRect of
        None \<Rightarrow> Inr (Fin 0)
      | Some f \<Rightarrow>
          (case oval of
             None \<Rightarrow> Inl (TypeError ''Cannot read properties of undefined (reading 'width')'')
           | Some ov \<Rightarrow>
               Inr (js_div (box_width f * box_height f)
                      (Math_PI * (box_width ov / 2) * (box_height ov / 2)))))"

datatype position_check = PositionCheck bool string

definition checkFacePosition ::
  "rat box option \<Rightarrow> rat box option \<Rightarrow> js_error + position_check" where
  "checkFacePosition oval faceRect =
     (case faceRect of
        None \<Rightarrow> Inr (PositionCheck False ''No face detected'')
      | Some f \<Rightarrow>
          (case oval of
             None \<Rightarrow> Inl (TypeError ''Cannot read properties of undefined (reading 'x')'')
           | Some ov \<Rightarrow>
               (let ovalCenterX = box_x ov + box_width ov / 2;
                    ovalCenterY = box_y ov + box_height ov / 2;
                    faceCenterX = box_x f + box_width f / 2;
                    faceCenterY = box_y f + box_height f / 2;
                    xDistancePercent =
                      js_times (js_div \<bar>faceCenterX - ovalCenterX\<bar> (box_width ov / 2)) 100;
                    yDistancePercent =
                      js_times (js_div \<bar>faceCenterY - ovalCenterY\<bar> (box_height ov / 2)) 100;
                    ovalArea = Math_PI * (box_width ov / 2) * (box_height ov / 2);
                    faceArea = box_width f * box_height f;
                    areaRatio = js_div faceArea ovalArea
                in if js_gt xDistancePercent 50 then
                     Inr (PositionCheck False
                       (''Move your face '' @
                          (if faceCenterX < ovalCenterX then ''right'' else ''left'')))
                   else if js_gt yDistancePercent 50 then
                     Inr (PositionCheck False
                       (''Move your face '' @
                          (if faceCenterY < ovalCenterY then ''down'' else ''up'')))
                   else if js_lt areaRatio (3 / 20) then
                     Inr (PositionCheck False ''Move closer to the camera'')
                   else if js_gt areaRatio (17 / 20) then
                     Inr (PositionCheck False ''Move back from the camera'')
                   else Inr (PositionCheck True ''Face position is good''))))"

subsection \<open>captureFrame and processFrame\<close>

text \<open>
  The oval as this script computes it, with the padding that depends on the window's
  size. The quotients are the rationals', as in \<open>ovalData\<close>.
\<close>

definition ovalData_app :: "browser \<Rightarrow> int box" where
  "ovalData_app b =
     (let vr = videoRect b; ov = ovalRect b;
          screenWidth = of_nat (innerWidth b); screenHeight = of_nat (innerHeight b);
          screenAspectRatio = screenWidth / screenHeight;
          basePadding = (if min screenWidth screenHeight < 768 then 1 / 20 else 1 / 10);
          dynamicPadding =
            basePadding * (if screenAspectRatio > 1 then 1 else screenAspectRatio);
          scaleX = of_nat (videoWidth b) / rect_width vr;
          scaleY = of_nat (videoHeight b) / rect_height vr
      in \<lparr>box_x = Math_round ((rect_left ov - rect_left vr) * scaleX),
          box_y = Math_round ((rect_top ov - rect_top vr) * scaleY),
          box_width = Math_round (rect_width ov * scaleX * (1 + dynamicPadding)),
          box_height = Math_round (rect_height ov * scaleY * (1 + dynamicPadding))\<rparr>)"

text \<open>
  This \<^verbatim>\<open>captureFrame\<close> throws when a video dimension is zero or drawing throws,
  and returns whatever \<^verbatim>\<open>toDataURL\<close> gives otherwise.
\<close>

definition captureFrame_app :: "browser \<Rightarrow> js_error + (string \<times> int box)" where
  "captureFrame_app b =
     (if videoWidth b = 0 \<or> videoHeight b = 0
      then Inl (Error ''Video dimensions not available'')
      else case drawImage_throws b of
             Some m \<Rightarrow> Inl (DrawError m)
           | None \<Rightarrow> Inr (toDataURL b, ovalData_app b))"

text \<open>
  \<^verbatim>\<open>processFrame\<close>: \<open>now\<close> is the clock read at the start of the
  \<^verbatim>\<open>try\<close>, \<open>now'\<close> the clock read by the \<^verbatim>\<open>updateUI\<close> of the
  \<^verbatim>\<open>catch\<close>. After a capture that succeeds the source has only comments left.
\<close>

definition processFrame :: "browser \<Rightarrow> int \<Rightarrow> int \<Rightarrow> app_state \<Rightarrow> app_state" where
  "processFrame b now now' s =
     (if \<not> state_isRunning s \<or> state_isProcessing s then s
      else
        (let s1 = s\<lparr>state_isProcessing := True\<rparr>
         in if now - state_lastProcessedTime s1 < int MIN_FRAME_INTERVAL then
              (let s2 = s1\<lparr>state_isProcessing := False\<rparr>
               in if state_isRunning s2
                  then s2\<lparr>scheduled := scheduled s2 @ [MIN_FRAME_INTERVAL]\<rparr> else s2)
            else
              (case captureFrame_app b of
                 Inr frame \<Rightarrow> s1
               | Inl e \<Rightarrow>
                   (let s2 = updateUI now' ERROR ''Error processing frame'' []
                               (s1\<lparr>state_framesCollected := 0\<rparr>);
                        s3 = s2\<lparr>state_isProcessing := False\<rparr>
                    in if state_isRunning s3 \<and> state_currentState s3 \<noteq> AUTHENTICATED_app
                       then s3\<lparr>scheduled := scheduled s3 @ [RETRY_DELAY]\<rparr> else s3))))"

subsection \<open>handleSuccessfulAuthentication\<close>

text \<open>\<^verbatim>\<open>name.split(' ')[0]\<close>\<close>

definition firstName :: "string \<Rightarrow> string" where
  "firstName name = takeWhile (\<lambda>c. c \<noteq> CHR '' '') name"

text \<open>
  \<^verbatim>\<open>track.stop()\<close> as the browser defines it: a live track ends, and on a track
  that has ended the call does nothing.
\<close>

definition track_stop :: "nat \<Rightarrow> nat list \<Rightarrow> nat list" where
  "track_stop k e = (if k \<in> set e then e else e @ [k])"

text \<open>The tracks of the stream the state holds; none when it holds no stream.\<close>

definition held_tracks :: "app_state \<Rightarrow> nat list" where
  "held_tracks s = (case state_stream s of None \<Rightarrow> [] | Some tracks \<Rightarrow> tracks)"

definition handleSuccessfulAuthentication ::
  "browser \<Rightarrow> string option \<Rightarrow> int \<Rightarrow> app_state \<Rightarrow> app_state" where
  "handleSuccessfulAuthentication b name now s =
     (if \<not> truthy name then s
      else
        (let s1 = s\<lparr>state_isRunning := False, state_isProcessing := False\<rparr>;
             s2 = updateUI now AUTHENTICATED_app
                    (''Welcome, '' @ firstName (the name) @ ''!'') [] s1;
             s3 = (case state_stream s2 of
                     Some tracks \<Rightarrow> s2\<lparr>ended := fold track_stop tracks (ended s2)\<rparr>
                   | None \<Rightarrow> s2)
         in if flutter_inappwebview b
            then s3\<lparr>handler_calls := handler_calls s3 @
                       [Notification ''success'' ''Authentication successful'' now]\<rparr>
            else s3))"

subsection \<open>Start of a session\<close>

text \<open>
  The \<^verbatim>\<open>state\<close> object as the script declares it, and the state
  \<^verbatim>\<open>startCamera\<close> reaches, with the stream's tracks, before it calls
  \<^verbatim>\<open>processFrame\<close>.
\<close>

definition initial_state :: app_state where
  "initial_state =
     \<lparr>state_isRunning = False, state_isProcessing = False, state_currentState = WAITING,
      state_framesCollected = 0, state_stream = None, state_lastProcessedTime = 0,
      state_lastUIUpdate = 0, ovalState_current = ''no-face'',
      ovalState_transitioning = False, ovalState_lastUpdate = 0,
      elements_ovalBorder = [''oval-border''],
      elements_statusDisplay_classList = [''status''],
      elements_statusDisplay_textContent = [], elements_statusHint_textContent = [],
      scheduled = [], ended = [], handler_calls = [], posted = []\<rparr>"

definition startCamera :: "nat list \<Rightarrow> int \<Rightarrow> app_state \<Rightarrow> app_state" where
  "startCamera tracks now s =
     (if state_isRunning s then s
      else updateUI now WAITING ''Position your face in the oval'' []
             (s\<lparr>state_stream := Some tracks, state_isRunning := True\<rparr>))"

section \<open>Sample inputs\<close>

text \<open>
  A square video shown at its own size with the oval element 300 pixels from its left
  edge, and a video ten pixels taller.
\<close>

definition shown_video :: browser where
  "shown_video =
     \<lparr>video_ready = True, videoWidth = 480, videoHeight = 480,
      videoRect = \<lparr>rect_left = 0, rect_top = 0, rect_width = 480, rect_height = 480\<rparr>,
      ovalRect = \<lparr>rect_left = 300, rect_top = 0, rect_width = 160, rect_height = 200\<rparr>,
      drawImage_throws = None, toDataURL = ''data:image/jpeg;base64,AAAA'',
      innerWidth = 480, innerHeight = 800, flutter_inappwebview = False\<rparr>"

definition tall_video :: browser where
  "tall_video =
     shown_video\<lparr>videoHeight := 490,
       videoRect := \<lparr>rect_left = 0, rect_top = 0, rect_width = 480, rect_height = 490\<rparr>\<rparr>"

text \<open>The same video with the oval element starting 20 pixels left of it.\<close>

definition oval_left_of_video :: browser where
  "oval_left_of_video =
     shown_video\<lparr>ovalRect :=
       \<lparr>rect_left = - 20, rect_top = 0, rect_width = 160, rect_height = 200\<rparr>\<rparr>"

text \<open>The same video when the encoder returns an empty payload.\<close>

definition empty_payload :: browser where
  "empty_payload = shown_video\<lparr>toDataURL := []\<rparr>"

text \<open>A video whose metadata has not arrived: its width is still zero.\<close>

definition no_dimensions :: browser where
  "no_dimensions = shown_video\<lparr>videoWidth := 0\<rparr>"

text \<open>Five live verdicts, one second apart.\<close>

definition five_live :: "(int \<times> result) list" where
  "five_live =
     [(1000, Live (4 / 5)), (2000, Live (7 / 10)), (3000, Live (9 / 10)),
      (4000, Live (9 / 10)), (5000, Live (19 / 20))]"

section \<open>Properties of the monitoring script\<close>

subsection \<open>Evaluation on the sample inputs\<close>

lemmas upd_eval = updateFacePosition_def live_branch_def not_live_branch_def resetUI_inner_def
  updateProgress_def notifyFlutter_def clearTimeout_def camera_ready_def initial_page_def
  startSession_def setTimeout_def Live_def NoFace_def truthy_def or_else_def one_face_only_def
  classList_add_def classList_remove_def REQUIRED_LIVE_FRAMES_def STATUS_DEBOUNCE_TIME_def
  SESSION_TIMEOUT_def

lemma camera_ready_fields:
  "isRunning (camera_ready (initial_page n))"
  "currentState (camera_ready (initial_page n)) = MONITORING"
  "liveFrameCount (camera_ready (initial_page n)) = 0"
  "lastStatusUpdate (camera_ready (initial_page n)) = 0"
  "requests (camera_ready (initial_page n)) = []"
  "notified (camera_ready (initial_page n)) = []"
  "trackStops (camera_ready (initial_page n)) = 0"
  "timers (camera_ready (initial_page n)) = [(1, SESSION_TIMEOUT, SessionExpired)]"
  "nextTimer (camera_ready (initial_page n)) = 2"
  "authenticationLoop (camera_ready (initial_page n)) = None"
  by (simp_all add: camera_ready_def initial_page_def startSession_def setTimeout_def Let_def)

lemma live_verdict_Live: "live_verdict (Live c)"
  by (simp add: live_verdict_def Live_def truthy_def one_face_only_def)

lemma not_live_verdict_NoFace: "not_live_verdict NoFace"
  by (simp add: not_live_verdict_def NoFace_def truthy_def)

lemma feed_five_live:
  "currentState (feed five_live (camera_ready (initial_page 4))) = AUTHENTICATED"
  "liveFrameCount (feed five_live (camera_ready (initial_page 4))) = 5"
  "trackStops (feed five_live (camera_ready (initial_page 4))) = 0"
  "lastStatusUpdate (feed five_live (camera_ready (initial_page 4))) = 5000"
  by (simp_all add: five_live_def upd_eval Let_def)

subsection \<open>Live verdicts\<close>

lemma live_step:
  assumes "live_verdict r" and "currentState s \<noteq> AUTHENTICATED"
    and "t - lastStatusUpdate s \<ge> STATUS_DEBOUNCE_TIME div 2"
  shows "liveFrameCount (updateFacePosition t r s) = Suc (liveFrameCount s)"
    and "lastStatusUpdate (updateFacePosition t r s) = t"
    and "currentState (updateFacePosition t r s) =
           (if Suc (liveFrameCount s) \<ge> REQUIRED_LIVE_FRAMES then AUTHENTICATED
            else currentState s)"
    and "Suc (liveFrameCount s) < REQUIRED_LIVE_FRAMES \<Longrightarrow>
           statusDisplay_className (updateFacePosition t r s) = [''status'', ''analyzing'']"
  using assms
  by (auto simp: updateFacePosition_def live_verdict_def live_branch_def Let_def
      updateProgress_def notifyFlutter_def clearTimeout_def split: option.splits)

lemma feed_live:
  assumes "list_all (\<lambda>v. live_verdict (snd v)) vs" and "spaced (lastStatusUpdate s) vs"
    and "currentState s = MONITORING"
    and "liveFrameCount s + length vs \<le> REQUIRED_LIVE_FRAMES"
    and "vs \<noteq> []"
  shows "liveFrameCount (feed vs s) = liveFrameCount s + length vs \<and>
         currentState (feed vs s) =
           (if liveFrameCount s + length vs = REQUIRED_LIVE_FRAMES
            then AUTHENTICATED else MONITORING) \<and>
         (liveFrameCount s + length vs < REQUIRED_LIVE_FRAMES \<longrightarrow>
            statusDisplay_className (feed vs s) = [''status'', ''analyzing''])"
  using assms
proof (induction vs arbitrary: s)
  case Nil
  then show ?case by simp
next
  case (Cons v vs)
  let ?s' = "updateFacePosition (fst v) (snd v) s"
  have lv: "live_verdict (snd v)"
    and sp: "fst v - lastStatusUpdate s \<ge> STATUS_DEBOUNCE_TIME div 2"
    and na: "currentState s \<noteq> AUTHENTICATED"
    using Cons.prems by simp_all
  note st = live_step [OF lv na sp]
  show ?case
  proof (cases "vs = []")
    case True
    with st Cons.prems show ?thesis by auto
  next
    case False
    with Cons.prems have lt: "Suc (liveFrameCount s) < REQUIRED_LIVE_FRAMES"
      by (cases vs) auto
    have "liveFrameCount (feed vs ?s') = liveFrameCount ?s' + length vs \<and>
         currentState (feed vs ?s') =
           (if liveFrameCount ?s' + length vs = REQUIRED_LIVE_FRAMES
            then AUTHENTICATED else MONITORING) \<and>
         (liveFrameCount ?s' + length vs < REQUIRED_LIVE_FRAMES \<longrightarrow>
            statusDisplay_className (feed vs ?s') = [''status'', ''analyzing''])"
      using Cons.prems lt st False by (intro Cons.IH) auto
    with st show ?thesis by simp
  qed
qed

lemma spaced_take: "spaced t0 vs \<Longrightarrow> spaced t0 (take k vs)"
  by (induction vs arbitrary: t0 k) (auto simp: take_Cons split: nat.splits)

lemma list_all_take: "list_all P vs \<Longrightarrow> list_all P (take k vs)"
  by (induction vs arbitrary: k) (auto simp: take_Cons split: nat.splits)

text \<open>
  Claim C1, as the script has it. The script requires five live frames, has no phase
  between Monitoring and Authenticated, and counts a live verdict only when it is
  processed at least half the debounce time after the last status update. From
  Monitoring with a counter of zero, after the first \<open>k\<close> of at most five such verdicts
  the counter is \<open>k\<close>; the phase is still Monitoring while \<open>k\<close> is below five, with the
  status shown as analyzing, and is Authenticated at five.
\<close>

theorem live_frames_accumulate:
  assumes "currentState s = MONITORING" and "liveFrameCount s = 0"
    and "list_all (\<lambda>v. live_verdict (snd v)) vs"
    and "spaced (lastStatusUpdate s) vs"
    and "length vs \<le> REQUIRED_LIVE_FRAMES"
    and "k \<le> length vs"
  shows "liveFrameCount (feed (take k vs) s) = k \<and>
         currentState (feed (take k vs) s) =
           (if k = REQUIRED_LIVE_FRAMES then AUTHENTICATED else MONITORING) \<and>
         (0 < k \<and> k < REQUIRED_LIVE_FRAMES \<longrightarrow>
            statusDisplay_className (feed (take k vs) s) = [''status'', ''analyzing''])"
proof (cases "k = 0")
  case True
  with assms show ?thesis by (simp add: REQUIRED_LIVE_FRAMES_def)
next
  case False
  with assms have ne: "take k vs \<noteq> []" by auto
  have len: "length (take k vs) = k" using assms by simp
  have "liveFrameCount s + length (take k vs) \<le> REQUIRED_LIVE_FRAMES"
    using assms by simp
  from feed_live [OF list_all_take [OF assms(3)] spaced_take [OF assms(4)] assms(1) this ne]
  show ?thesis using assms len by simp
qed

theorem live_frames_accumulate_witness:
  "currentState (camera_ready (initial_page 4)) = MONITORING \<and>
   liveFrameCount (camera_ready (initial_page 4)) = 0 \<and>
   list_all (\<lambda>v. live_verdict (snd v)) five_live \<and>
   spaced (lastStatusUpdate (camera_ready (initial_page 4))) five_live \<and>
   liveFrameCount (feed (take 3 five_live) (camera_ready (initial_page 4))) = 3 \<and>
   currentState (feed (take 3 five_live) (camera_ready (initial_page 4))) = MONITORING \<and>
   statusDisplay_className (feed (take 3 five_live) (camera_ready (initial_page 4))) =
     [''status'', ''analyzing''] \<and>
   liveFrameCount (feed (take 5 five_live) (camera_ready (initial_page 4))) = 5 \<and>
   currentState (feed (take 5 five_live) (camera_ready (initial_page 4))) = AUTHENTICATED"
  using live_frames_accumulate [of "camera_ready (initial_page 4)" five_live 3]
    live_frames_accumulate [of "camera_ready (initial_page 4)" five_live 5]
  by (simp add: camera_ready_fields live_verdict_Live five_live_def REQUIRED_LIVE_FRAMES_def
      STATUS_DEBOUNCE_TIME_def)

text \<open>
  Three live verdicts one second apart leave the phase at Monitoring, and three live
  verdicts 200 milliseconds apart raise the counter once.
\<close>

theorem three_live_verdicts_not_authenticated:
  "map currentState (trace [(1000, Live (4 / 5)), (2000, Live (7 / 10)), (3000, Live (9 / 10))]
      (camera_ready (initial_page 4))) = [MONITORING, MONITORING, MONITORING, MONITORING] \<and>
   map liveFrameCount (trace [(1000, Live (4 / 5)), (2000, Live (7 / 10)), (3000, Live (9 / 10))]
      (camera_ready (initial_page 4))) = [0, 1, 2, 3] \<and>
   map liveFrameCount (trace [(1000, Live (4 / 5)), (1200, Live (7 / 10)), (1400, Live (9 / 10))]
      (camera_ready (initial_page 4))) = [0, 1, 1, 1]"
  by (simp add: upd_eval Let_def)

subsection \<open>The Authenticated phase\<close>

lemma authenticated_phase_stays:
  "currentState s = AUTHENTICATED \<Longrightarrow>
     currentState (updateFacePosition t r s) = AUTHENTICATED"
  by (auto simp: updateFacePosition_def not_live_branch_def resetUI_inner_def live_branch_def
      Let_def)

lemma authenticated_live_count_stays:
  "currentState s = AUTHENTICATED \<Longrightarrow> \<not> not_live_verdict r \<Longrightarrow>
     liveFrameCount (updateFacePosition t r s) = liveFrameCount s"
  by (auto simp: updateFacePosition_def not_live_verdict_def live_branch_def Let_def)

text \<open>
  Claim C2 at the input where the script departs from it. After five live verdicts the
  phase is Authenticated and the counter is five; an answer without a face that is
  processed a second later keeps the phase but sets the counter to zero and shows the
  error status.
\<close>

theorem reset_after_authenticated:
  "currentState (feed five_live (camera_ready (initial_page 4))) = AUTHENTICATED \<and>
   liveFrameCount (feed five_live (camera_ready (initial_page 4))) = 5 \<and>
   currentState (updateFacePosition 6000 NoFace
      (feed five_live (camera_ready (initial_page 4)))) = AUTHENTICATED \<and>
   liveFrameCount (updateFacePosition 6000 NoFace
      (feed five_live (camera_ready (initial_page 4)))) = 0 \<and>
   statusDisplay_className (updateFacePosition 6000 NoFace
      (feed five_live (camera_ready (initial_page 4)))) = [''status'', ''error'']"
  by (simp add: five_live_def upd_eval Let_def)

theorem reset_after_authenticated_witness:
  "liveFrameCount (updateFacePosition 6000 NoFace
      (feed five_live (camera_ready (initial_page 4)))) \<noteq>
   liveFrameCount (feed five_live (camera_ready (initial_page 4)))"
  using reset_after_authenticated by simp

subsection \<open>Resetting the counter\<close>

text \<open>
  Claim C3, as the script has it. A verdict that is not live sets the counter to zero
  when at least the debounce time has passed since the last status update, and leaves
  it as it is otherwise; any other answer never lowers the counter.
\<close>

theorem counter_reset_is_debounced:
  "(not_live_verdict r \<longrightarrow>
      liveFrameCount (updateFacePosition t r s) =
        (if t - lastStatusUpdate s \<ge> STATUS_DEBOUNCE_TIME then 0 else liveFrameCount s)) \<and>
   (\<not> not_live_verdict r \<longrightarrow>
      liveFrameCount s \<le> liveFrameCount (updateFacePosition t r s))"
  by (auto simp: updateFacePosition_def not_live_verdict_def not_live_branch_def
      resetUI_inner_def live_branch_def Let_def updateProgress_def notifyFlutter_def
      clearTimeout_def split: option.splits)

theorem counter_reset_is_debounced_witness:
  "not_live_verdict NoFace \<and> \<not> not_live_verdict (Live (4 / 5)) \<and>
   liveFrameCount (updateFacePosition 2000 NoFace
     (updateFacePosition 1000 (Live (4 / 5)) (camera_ready (initial_page 4)))) = 0 \<and>
   liveFrameCount (camera_ready (initial_page 4)) \<le>
     liveFrameCount (updateFacePosition 1000 (Live (4 / 5)) (camera_ready (initial_page 4)))"
  using counter_reset_is_debounced [of NoFace 2000
      "updateFacePosition 1000 (Live (4 / 5)) (camera_ready (initial_page 4))"]
    counter_reset_is_debounced [of "Live (4 / 5)" 1000 "camera_ready (initial_page 4)"]
  by (simp add: not_live_verdict_def upd_eval Let_def)

text \<open>
  An answer without a face that is processed 200 milliseconds after a live one leaves
  the counter at one.
\<close>

theorem not_live_inside_debounce_keeps_counter:
  "not_live_verdict NoFace \<and>
   liveFrameCount (updateFacePosition 1000 (Live (4 / 5)) (camera_ready (initial_page 4))) = 1 \<and>
   liveFrameCount (updateFacePosition 1200 NoFace
     (updateFacePosition 1000 (Live (4 / 5)) (camera_ready (initial_page 4)))) = 1"
  by (simp add: not_live_verdict_def upd_eval Let_def)

subsection \<open>Session timeout\<close>

lemma sessionExpired_halts:
  assumes "currentState s \<noteq> AUTHENTICATED"
  shows "currentState (sessionExpired now s) = TIMEOUT"
    and "isRunning (sessionExpired now s) = False"
    and "startAuthentication_begin b t (sessionExpired now s) = Returned (sessionExpired now s)"
proof -
  show 1: "currentState (sessionExpired now s) = TIMEOUT"
    using assms
    by (auto simp: sessionExpired_def handleTimeout_def Let_def notifyFlutter_def
        clearTimeout_def split: option.splits)
  show 2: "isRunning (sessionExpired now s) = False"
    using assms
    by (auto simp: sessionExpired_def handleTimeout_def Let_def notifyFlutter_def
        clearTimeout_def split: option.splits)
  show "startAuthentication_begin b t (sessionExpired now s) = Returned (sessionExpired now s)"
    using 2 by (simp add: startAuthentication_begin_def)
qed

text \<open>
  Claim C4 at the input where the script departs from it. A request is in flight when
  the session timer fires: the phase becomes Timeout with the loop stopped and the
  counter at zero. The live answer that arrives afterwards is still processed and
  raises the counter to one.
\<close>

theorem in_flight_response_after_timeout:
  "(case startAuthentication_begin shown_video 9900 (camera_ready (initial_page 4)) of
      Returned s1 \<Rightarrow> False
    | Suspended s1 \<Rightarrow>
        currentState (sessionExpired 10000 s1) = TIMEOUT \<and>
        isRunning (sessionExpired 10000 s1) = False \<and>
        liveFrameCount (sessionExpired 10000 s1) = 0 \<and>
        currentState (startAuthentication_resume (Json (Some (Live (4 / 5)))) 10100
           (sessionExpired 10000 s1)) = TIMEOUT \<and>
        liveFrameCount (startAuthentication_resume (Json (Some (Live (4 / 5)))) 10100
           (sessionExpired 10000 s1)) = 1)"
  by (simp add: startAuthentication_begin_def startAuthentication_resume_def sessionExpired_def
    handleTimeout_def after_try_def upd_eval Let_def captureFrame_def shown_video_def
    jpeg_prefix_def)

theorem in_flight_response_after_timeout_witness:
  "\<exists>s1. startAuthentication_begin shown_video 9900 (camera_ready (initial_page 4)) =
           Suspended s1 \<and>
     liveFrameCount (sessionExpired 10000 s1) <
     liveFrameCount (startAuthentication_resume (Json (Some (Live (4 / 5)))) 10100
           (sessionExpired 10000 s1))"
  using in_flight_response_after_timeout
  by (auto split: cycle.splits)

subsection \<open>The capture region\<close>

lemma floor_rat_numeral:
  "\<lfloor>numeral a / numeral c :: rat\<rfloor> = numeral a div numeral c"
  using floor_divide_of_int_eq [of "numeral a" "numeral c", where ?'a = rat] by simp

lemma Math_round_mono: "a \<le> c \<Longrightarrow> Math_round a \<le> Math_round c"
  by (simp add: Math_round_def floor_mono)

lemma Math_round_nonneg: "0 \<le> a \<Longrightarrow> 0 \<le> Math_round a"
  by (simp add: Math_round_def)

lemma ovalData_position: "0 \<le> box_x (ovalData b) \<and> 0 \<le> box_y (ovalData b)"
  unfolding ovalData_def Let_def by simp

lemma ovalData_size_nonneg: "0 \<le> box_width (ovalData b) \<and> 0 \<le> box_height (ovalData b)"
  unfolding ovalData_def Let_def by (simp add: Math_round_nonneg)

lemma ovalData_size_bound:
  "box_width (ovalData b) \<le> Math_round (of_nat (videoWidth b) * (17 / 20)) \<and>
   box_height (ovalData b) \<le> Math_round (of_nat (videoHeight b) * (17 / 20))"
  unfolding ovalData_def Let_def by (simp add: Math_round_mono)

lemma captureFrame_ovalGuide:
  "captureFrame b = Inr (Some f) \<Longrightarrow> ovalGuide f = ovalData b"
  by (auto simp: captureFrame_def split: if_splits)

lemma ovalData_shown_video:
  "ovalData shown_video = \<lparr>box_x = 300, box_y = 0, box_width = 270, box_height = 360\<rparr>"
  unfolding ovalData_def Let_def shown_video_def Math_round_def
  by (simp add: floor_rat_numeral)

lemma ovalData_tall_video:
  "ovalData tall_video = \<lparr>box_x = 300, box_y = 0, box_width = 360, box_height = 417\<rparr>"
  unfolding ovalData_def Let_def tall_video_def shown_video_def Math_round_def
  by (simp add: floor_rat_numeral)

lemma floor_rat_neg_numeral:
  "\<lfloor>- (numeral a / numeral c) :: rat\<rfloor> = - numeral a div numeral c"
  using floor_divide_of_int_eq [of "- numeral a" "numeral c", where ?'a = rat] by simp

lemma floor_rat_one_numeral:
  "\<lfloor>1 / numeral c :: rat\<rfloor> = 1 div numeral c"
  using floor_divide_of_int_eq [of 1 "numeral c", where ?'a = rat] by simp

lemma ovalData_app_oval_left_of_video:
  "ovalData_app oval_left_of_video =
     \<lparr>box_x = - 20, box_y = 0, box_width = 165, box_height = 206\<rparr>"
  unfolding ovalData_app_def Let_def oval_left_of_video_def shown_video_def Math_round_def
  by (simp add: floor_rat_numeral floor_rat_neg_numeral floor_rat_one_numeral)

lemma captureFrame_app_oval_left_of_video:
  "captureFrame_app oval_left_of_video =
     Inr (''data:image/jpeg;base64,AAAA'', ovalData_app oval_left_of_video)"
  by (simp add: captureFrame_app_def oval_left_of_video_def shown_video_def)

lemma captureFrame_shown_video:
  "captureFrame shown_video =
     Inr (Some \<lparr>image = ''data:image/jpeg;base64,AAAA'', ovalGuide = ovalData shown_video\<rparr>)"
  by (simp add: captureFrame_def shown_video_def jpeg_prefix_def)

text \<open>
  Claim C5, as the monitoring script has it, for a video displayed with a positive
  width and height. The oval of a captured frame has a non-negative position and size,
  and its width and height are at most 85 percent of the video's width and height
  rounded to whole pixels. Its position is not bounded from above.
\<close>

theorem capture_region_bounds:
  assumes "captureFrame b = Inr (Some f)"
    and "0 < rect_width (videoRect b)" and "0 < rect_height (videoRect b)"
  shows "0 \<le> box_x (ovalGuide f) \<and> 0 \<le> box_y (ovalGuide f) \<and>
   0 \<le> box_width (ovalGuide f) \<and> 0 \<le> box_height (ovalGuide f) \<and>
   box_width (ovalGuide f) \<le> Math_round (of_nat (videoWidth b) * (17 / 20)) \<and>
   box_height (ovalGuide f) \<le> Math_round (of_nat (videoHeight b) * (17 / 20))"
  using captureFrame_ovalGuide [OF assms(1)] ovalData_position [of b]
    ovalData_size_nonneg [of b] ovalData_size_bound [of b]
  by simp

theorem capture_region_bounds_witness:
  "captureFrame shown_video =
     Inr (Some \<lparr>image = ''data:image/jpeg;base64,AAAA'', ovalGuide = ovalData shown_video\<rparr>) \<and>
   0 < rect_width (videoRect shown_video) \<and> 0 < rect_height (videoRect shown_video) \<and>
   0 \<le> box_x (ovalData shown_video) \<and> box_width (ovalData shown_video) \<le> 408 \<and>
   box_height (ovalData shown_video) \<le> 408"
  using capture_region_bounds [of shown_video
      "\<lparr>image = ''data:image/jpeg;base64,AAAA'', ovalGuide = ovalData shown_video\<rparr>"]
  by (simp add: captureFrame_shown_video ovalData_shown_video) (simp add: shown_video_def)

text \<open>
  On a 480 by 480 video shown at its own size, with the oval element 300 pixels from
  the left edge, the region starts at 300 and is 270 wide: it ends at 570. On a 480 by
  490 video the region is 417 high, above 85 percent of 490. The configurable script
  clamps nothing: an oval element that starts left of the video gives a negative
  position.
\<close>

theorem capture_region_leaves_video:
  "captureFrame shown_video =
     Inr (Some \<lparr>image = ''data:image/jpeg;base64,AAAA'',
        ovalGuide = \<lparr>box_x = 300, box_y = 0, box_width = 270, box_height = 360\<rparr>\<rparr>) \<and>
   int (videoWidth shown_video) <
     box_x (ovalData shown_video) + box_width (ovalData shown_video) \<and>
   of_nat (videoHeight tall_video) * (17 / 20) <
     (of_int (box_height (ovalData tall_video)) :: rat) \<and>
   captureFrame_app oval_left_of_video =
     Inr (''data:image/jpeg;base64,AAAA'',
        \<lparr>box_x = - 20, box_y = 0, box_width = 165, box_height = 206\<rparr>) \<and>
   box_x (ovalData_app oval_left_of_video) < 0"
  by (simp add: captureFrame_shown_video ovalData_shown_video ovalData_tall_video
      captureFrame_app_oval_left_of_video ovalData_app_oval_left_of_video)
     (simp add: shown_video_def tall_video_def)

section \<open>Properties of the configurable script\<close>

subsection \<open>Evaluation on the sample inputs\<close>

lemmas app_eval = updateUI_def startCamera_def initial_state_def classList_add_def
  classList_remove_all_def

lemma startCamera_fields:
  "state_isRunning (startCamera [7] 500 initial_state)"
  "\<not> state_isProcessing (startCamera [7] 500 initial_state)"
  "state_currentState (startCamera [7] 500 initial_state) = WAITING"
  "state_lastUIUpdate (startCamera [7] 500 initial_state) = 500"
  "state_lastProcessedTime (startCamera [7] 500 initial_state) = 0"
  "scheduled (startCamera [7] 500 initial_state) = []"
  "ended (startCamera [7] 500 initial_state) = []"
  "state_stream (startCamera [7] 500 initial_state) = Some [7]"
  by (simp_all add: startCamera_def initial_state_def updateUI_def)

lemma captureFrame_app_shown_video:
  "captureFrame_app shown_video =
     Inr (''data:image/jpeg;base64,AAAA'', ovalData_app shown_video)"
  by (simp add: captureFrame_app_def shown_video_def)

lemma no_dimensions_fields:
  "video_ready no_dimensions" "videoWidth no_dimensions = 0"
  by (simp_all add: no_dimensions_def shown_video_def)

lemma empty_payload_fields:
  "video_ready empty_payload" "videoWidth empty_payload = 480"
  "videoHeight empty_payload = 480" "drawImage_throws empty_payload = None"
  "toDataURL empty_payload = []"
  by (simp_all add: empty_payload_def shown_video_def)

lemma captureFrame_app_no_dimensions:
  "captureFrame_app no_dimensions = Inl (Error ''Video dimensions not available'')"
  by (simp add: captureFrame_app_def no_dimensions_fields)

lemma captureFrame_no_dimensions:
  "captureFrame no_dimensions = Inl (Error ''Video dimensions not available'')"
  by (simp add: captureFrame_def no_dimensions_fields)

subsection \<open>Debounce\<close>

text \<open>
  Claim C6, as the scripts have it. A change requested less than 300 milliseconds after
  the last applied one is dropped whatever its target, a transition into Authenticated
  included: of two requests inside the window the first wins and its message stays
  (the default message when it is empty). A request made at least 300 milliseconds
  after the last applied one, while the phase is not Authenticated, is applied. In the
  monitoring script a live verdict inside half the debounce time changes neither
  counter nor phase.
\<close>

theorem ui_debounce:
  "(now - state_lastUIUpdate a < 300 \<longrightarrow> updateUI now st m h a = a) \<and>
   (state_currentState a \<noteq> AUTHENTICATED_app \<and> 300 \<le> t1 - state_lastUIUpdate a \<and>
      t2 - t1 < 300 \<longrightarrow>
        updateUI t2 st2 m2 h2 (updateUI t1 st1 m1 h1 a) = updateUI t1 st1 m1 h1 a \<and>
        elements_statusDisplay_textContent (updateUI t2 st2 m2 h2 (updateUI t1 st1 m1 h1 a)) =
          (if m1 = [] then ''Position your face in the oval'' else m1)) \<and>
   (state_currentState a \<noteq> AUTHENTICATED_app \<and> 300 \<le> now - state_lastUIUpdate a \<longrightarrow>
        state_currentState (updateUI now st m h a) = st \<and>
        state_lastUIUpdate (updateUI now st m h a) = now) \<and>
   (live_verdict r \<and> t - lastStatusUpdate s < STATUS_DEBOUNCE_TIME div 2 \<longrightarrow>
        liveFrameCount (updateFacePosition t r s) = liveFrameCount s \<and>
        currentState (updateFacePosition t r s) = currentState s)"
  by (auto simp: updateUI_def updateFacePosition_def live_verdict_def)

theorem ui_debounce_witness:
  "updateUI 1100 ERROR ''Error processing frame'' []
     (updateUI 1000 ANALYZING ''Verifying...'' [] (startCamera [7] 500 initial_state)) =
   updateUI 1000 ANALYZING ''Verifying...'' [] (startCamera [7] 500 initial_state) \<and>
   elements_statusDisplay_textContent
     (updateUI 1100 ERROR ''Error processing frame'' []
        (updateUI 1000 ANALYZING ''Verifying...'' [] (startCamera [7] 500 initial_state))) =
     ''Verifying...'' \<and>
   state_currentState
     (updateUI 1300 AUTHENTICATED_app ''Welcome, Ann!'' []
        (updateUI 1000 ANALYZING ''Verifying...'' [] (startCamera [7] 500 initial_state))) =
     AUTHENTICATED_app"
  using ui_debounce [where a = "startCamera [7] 500 initial_state" and ?t1.0 = 1000
      and ?st1.0 = ANALYZING and ?m1.0 = "''Verifying...''" and ?h1.0 = "[]"
      and ?t2.0 = 1100 and ?st2.0 = ERROR and ?m2.0 = "''Error processing frame''"
      and ?h2.0 = "[]"]
    ui_debounce [where now = 1300
      and a = "updateUI 1000 ANALYZING ''Verifying...'' [] (startCamera [7] 500 initial_state)"
      and st = AUTHENTICATED_app and m = "''Welcome, Ann!''" and h = "[]"]
  by (simp add: app_eval)

text \<open>
  A transition into Authenticated requested 100 milliseconds after an applied change is
  dropped: the phase stays Analyzing.
\<close>

theorem authenticated_transition_is_debounced:
  "state_currentState
     (updateUI 1100 AUTHENTICATED_app ''Welcome, Ann!'' []
        (updateUI 1000 ANALYZING ''Verifying...'' ''Keep still (2/3)''
           (startCamera [7] 500 initial_state))) = ANALYZING"
  by (simp add: app_eval)

subsection \<open>A detection result without a face rectangle\<close>

text \<open>
  Claim C7. When the face rectangle is absent, \<^verbatim>\<open>checkFacePosition\<close> returns the
  invalid position with the message that no face was detected and
  \<^verbatim>\<open>calculateHeadSizeRatio\<close> returns 0; neither throws, whatever the oval is.
\<close>

theorem missing_faceRect_is_no_face:
  "checkFacePosition oval None = Inr (PositionCheck False ''No face detected'') \<and>
   calculateHeadSizeRatio oval None = Inr (Fin 0)"
  by (simp add: checkFacePosition_def calculateHeadSizeRatio_def)

theorem missing_faceRect_is_no_face_witness:
  "checkFacePosition None None = Inr (PositionCheck False ''No face detected'') \<and>
   calculateHeadSizeRatio
     (Some \<lparr>box_x = 105, box_y = 60, box_width = 270, box_height = 360\<rparr>) None = Inr (Fin 0)"
  using missing_faceRect_is_no_face [of None]
    missing_faceRect_is_no_face
      [of "Some \<lparr>box_x = 105, box_y = 60, box_width = 270, box_height = 360\<rparr>"]
  by simp

subsection \<open>Capture failures\<close>

lemma schedule_next_fields:
  "requests (schedule_next s) = requests s"
  "currentState (schedule_next s) = currentState s"
  "liveFrameCount (schedule_next s) = liveFrameCount s"
  "notified (schedule_next s) = notified s"
  "isRunning (schedule_next s) = isRunning s"
  "trackStops (schedule_next s) = trackStops s"
  "timers (schedule_next s) = timers s @ [(nextTimer s, FRAME_INTERVAL, StartAuthentication)]"
  "authenticationLoop (schedule_next s) = Some (nextTimer s)"
  by (simp_all add: schedule_next_def setTimeout_def)

lemma no_server_error_in_dimensions:
  "str_includes ''Video dimensions not available'' ''Server error:'' = False"
  by simp

lemma captureFrame_unavailable:
  assumes "\<forall>f. captureFrame b \<noteq> Inr (Some f)"
  shows "captureFrame b = Inl (Error ''Video dimensions not available'') \<and>
           (videoWidth b = 0 \<or> videoHeight b = 0) \<or>
         captureFrame b = Inr None \<and> videoWidth b \<noteq> 0 \<and> videoHeight b \<noteq> 0"
  using assms by (auto simp: captureFrame_def split: if_splits)

lemma begin_capture_unavailable:
  assumes "isRunning s" and "video_ready b" and "currentState s \<noteq> AUTHENTICATED"
    and "\<forall>f. captureFrame b \<noteq> Inr (Some f)"
  shows "\<exists>s'. startAuthentication_begin b now s = Returned s' \<and>
           requests s' = requests s \<and> currentState s' = currentState s \<and>
           liveFrameCount s' = liveFrameCount s \<and>
           timers s' = timers s @ [(nextTimer s, FRAME_INTERVAL, StartAuthentication)] \<and>
           authenticationLoop s' = Some (nextTimer s) \<and>
           notified s' =
             (if videoWidth b = 0 \<or> videoHeight b = 0
              then notified s @ [Notification ''error'' ''Video dimensions not available'' now]
              else notified s)"
proof -
  from captureFrame_unavailable [OF assms(4)]
  consider (dims) "captureFrame b = Inl (Error ''Video dimensions not available'')"
      "videoWidth b = 0 \<or> videoHeight b = 0"
    | (encode) "captureFrame b = Inr None" "videoWidth b \<noteq> 0" "videoHeight b \<noteq> 0"
    by auto
  then show ?thesis
  proof cases
    case dims
    let ?c = "catch_block ''Video dimensions not available'' now s"
    have c: "?c = notifyFlutter (Notification ''error'' ''Video dimensions not available'' now) s"
      unfolding catch_block_def Let_def by (simp only: no_server_error_in_dimensions if_False)
    have "startAuthentication_begin b now s = Returned (schedule_next ?c)"
      using assms(1-3) dims(1)
      by (simp add: startAuthentication_begin_def after_try_def c notifyFlutter_def)
    then show ?thesis using dims(2)
      by (auto simp: schedule_next_fields c notifyFlutter_def)
  next
    case encode
    have "startAuthentication_begin b now s = Returned (schedule_next s)"
      using assms(1-3) encode(1) by (simp add: startAuthentication_begin_def)
    then show ?thesis using encode
      by (simp add: schedule_next_fields)
  qed
qed

lemma processFrame_capture_throws:
  assumes "state_isRunning a" and "\<not> state_isProcessing a"
    and "int MIN_FRAME_INTERVAL \<le> now - state_lastProcessedTime a"
    and "captureFrame_app b = Inl e"
  shows "posted (processFrame b now now' a) = posted a \<and>
         state_framesCollected (processFrame b now now' a) = 0 \<and>
         state_isProcessing (processFrame b now now' a) = False \<and>
         state_currentState (processFrame b now now' a) =
           (if state_currentState a = AUTHENTICATED_app \<or> now' - state_lastUIUpdate a < 300
            then state_currentState a else ERROR) \<and>
         scheduled (processFrame b now now' a) =
           (if state_currentState a = AUTHENTICATED_app then scheduled a
            else scheduled a @ [RETRY_DELAY])"
  using assms unfolding processFrame_def Let_def updateUI_def by simp

lemma captureFrame_app_returns:
  assumes "videoWidth b \<noteq> 0" and "videoHeight b \<noteq> 0" and "drawImage_throws b = None"
  shows "captureFrame_app b = Inr (toDataURL b, ovalData_app b)"
  using assms by (simp add: captureFrame_app_def)

lemma processFrame_capture_returns:
  assumes "state_isRunning a" and "\<not> state_isProcessing a"
    and "int MIN_FRAME_INTERVAL \<le> now - state_lastProcessedTime a"
    and "captureFrame_app b = Inr frame"
  shows "processFrame b now now' a = a\<lparr>state_isProcessing := True\<rparr>"
  using assms unfolding processFrame_def Let_def by simp

lemma captureFrame_empty_payload: "captureFrame empty_payload = Inr None"
  by (simp add: captureFrame_def empty_payload_def shown_video_def)

lemma captureFrame_app_empty_payload:
  "captureFrame_app empty_payload = Inr ([], ovalData_app empty_payload)"
  by (simp add: captureFrame_app_def empty_payload_def shown_video_def)

text \<open>
  Claim C8, as the scripts have it. In the monitoring script a cycle whose capture
  gives no frame (a video dimension is zero, drawing throws, or the payload is empty or
  not a JPEG data URL) posts no request, leaves phase and counter as they are and arms
  the next cycle after the frame interval; when a video dimension is zero it also hands
  an error notification to the bridge. In the configurable script a capture that throws
  (a video dimension is zero or drawing throws) posts nothing, sets the frame counter to
  zero, requests the Error phase (applied unless the phase is Authenticated or the last
  applied change is less than 300 milliseconds old) and arms a retry after the retry
  delay unless the phase is Authenticated. That script does not examine the payload:
  whatever the encoder returns, empty included, \<^verbatim>\<open>captureFrame\<close> returns it as a
  frame, and the cycle posts nothing and leaves the phase as it is.
\<close>

theorem capture_failure_is_retried:
  "(isRunning s \<and> video_ready b \<and> currentState s \<noteq> AUTHENTICATED \<and>
      (\<forall>f. captureFrame b \<noteq> Inr (Some f)) \<longrightarrow>
      (\<exists>s'. startAuthentication_begin b now s = Returned s' \<and>
           requests s' = requests s \<and> currentState s' = currentState s \<and>
           liveFrameCount s' = liveFrameCount s \<and>
           timers s' = timers s @ [(nextTimer s, FRAME_INTERVAL, StartAuthentication)] \<and>
           authenticationLoop s' = Some (nextTimer s) \<and>
           notified s' =
             (if videoWidth b = 0 \<or> videoHeight b = 0
              then notified s @ [Notification ''error'' ''Video dimensions not available'' now]
              else notified s))) \<and>
   (state_isRunning a \<and> \<not> state_isProcessing a \<and>
      int MIN_FRAME_INTERVAL \<le> now - state_lastProcessedTime a \<and>
      captureFrame_app b = Inl e \<longrightarrow>
         posted (processFrame b now now' a) = posted a \<and>
         state_framesCollected (processFrame b now now' a) = 0 \<and>
         state_isProcessing (processFrame b now now' a) = False \<and>
         state_currentState (processFrame b now now' a) =
           (if state_currentState a = AUTHENTICATED_app \<or> now' - state_lastUIUpdate a < 300
            then state_currentState a else ERROR) \<and>
         scheduled (processFrame b now now' a) =
           (if state_currentState a = AUTHENTICATED_app then scheduled a
            else scheduled a @ [RETRY_DELAY])) \<and>
   (state_isRunning a \<and> \<not> state_isProcessing a \<and>
      int MIN_FRAME_INTERVAL \<le> now - state_lastProcessedTime a \<and>
      videoWidth b \<noteq> 0 \<and> videoHeight b \<noteq> 0 \<and> drawImage_throws b = None \<longrightarrow>
         captureFrame_app b = Inr (toDataURL b, ovalData_app b) \<and>
         posted (processFrame b now now' a) = posted a \<and>
         state_currentState (processFrame b now now' a) = state_currentState a)"
proof -
  have "state_isRunning a \<and> \<not> state_isProcessing a \<and>
      int MIN_FRAME_INTERVAL \<le> now - state_lastProcessedTime a \<and>
      videoWidth b \<noteq> 0 \<and> videoHeight b \<noteq> 0 \<and> drawImage_throws b = None \<longrightarrow>
         captureFrame_app b = Inr (toDataURL b, ovalData_app b) \<and>
         posted (processFrame b now now' a) = posted a \<and>
         state_currentState (processFrame b now now' a) = state_currentState a"
  proof
    assume h: "state_isRunning a \<and> \<not> state_isProcessing a \<and>
      int MIN_FRAME_INTERVAL \<le> now - state_lastProcessedTime a \<and>
      videoWidth b \<noteq> 0 \<and> videoHeight b \<noteq> 0 \<and> drawImage_throws b = None"
    then have c: "captureFrame_app b = Inr (toDataURL b, ovalData_app b)"
      by (simp add: captureFrame_app_returns)
    with h have "processFrame b now now' a = a\<lparr>state_isProcessing := True\<rparr>"
      by (simp add: processFrame_capture_returns)
    with c show "captureFrame_app b = Inr (toDataURL b, ovalData_app b) \<and>
         posted (processFrame b now now' a) = posted a \<and>
         state_currentState (processFrame b now now' a) = state_currentState a"
      by simp
  qed
  then show ?thesis
    using begin_capture_unavailable [of s b now] processFrame_capture_throws [of a now b e now']
    by blast
qed

theorem capture_failure_is_retried_witness:
  "(\<exists>s'. startAuthentication_begin no_dimensions 1000 (camera_ready (initial_page 4)) =
            Returned s' \<and>
      requests s' = [] \<and> currentState s' = MONITORING \<and>
      timers s' =
        [(1, SESSION_TIMEOUT, SessionExpired), (2, FRAME_INTERVAL, StartAuthentication)] \<and>
      notified s' = [Notification ''error'' ''Video dimensions not available'' 1000]) \<and>
   (\<exists>s'. startAuthentication_begin empty_payload 1000 (camera_ready (initial_page 4)) =
            Returned s' \<and>
      requests s' = [] \<and> currentState s' = MONITORING \<and>
      timers s' =
        [(1, SESSION_TIMEOUT, SessionExpired), (2, FRAME_INTERVAL, StartAuthentication)] \<and>
      notified s' = []) \<and>
   scheduled (processFrame no_dimensions 1000 1000 (startCamera [7] 500 initial_state)) =
     [RETRY_DELAY] \<and>
   posted (processFrame no_dimensions 1000 1000 (startCamera [7] 500 initial_state)) =
     posted (startCamera [7] 500 initial_state) \<and>
   captureFrame_app empty_payload = Inr ([], ovalData_app empty_payload) \<and>
   posted (processFrame empty_payload 1000 1000 (startCamera [7] 500 initial_state)) =
     posted (startCamera [7] 500 initial_state) \<and>
   state_currentState
     (processFrame empty_payload 1000 1000 (startCamera [7] 500 initial_state)) = WAITING"
proof -
  have 1: "\<exists>s'. startAuthentication_begin no_dimensions 1000 (camera_ready (initial_page 4)) =
            Returned s' \<and>
      requests s' = [] \<and> currentState s' = MONITORING \<and>
      timers s' =
        [(1, SESSION_TIMEOUT, SessionExpired), (2, FRAME_INTERVAL, StartAuthentication)] \<and>
      notified s' = [Notification ''error'' ''Video dimensions not available'' 1000]"
    using capture_failure_is_retried [where s = "camera_ready (initial_page 4)"
      and b = no_dimensions and now = 1000 and a = "startCamera [7] 500 initial_state"
      and e = "Error ''Video dimensions not available''" and now' = 1000]
    by (simp add: captureFrame_no_dimensions camera_ready_fields no_dimensions_fields) blast
  have 2: "\<exists>s'. startAuthentication_begin empty_payload 1000 (camera_ready (initial_page 4)) =
            Returned s' \<and>
      requests s' = [] \<and> currentState s' = MONITORING \<and>
      timers s' =
        [(1, SESSION_TIMEOUT, SessionExpired), (2, FRAME_INTERVAL, StartAuthentication)] \<and>
      notified s' = []"
    using capture_failure_is_retried [where s = "camera_ready (initial_page 4)"
      and b = empty_payload and now = 1000 and a = "startCamera [7] 500 initial_state"
      and e = "Error ''Video dimensions not available''" and now' = 1000]
    by (simp add: captureFrame_empty_payload camera_ready_fields empty_payload_fields) blast
  have 3: "scheduled (processFrame no_dimensions 1000 1000 (startCamera [7] 500 initial_state)) =
     [RETRY_DELAY] \<and>
   posted (processFrame no_dimensions 1000 1000 (startCamera [7] 500 initial_state)) =
     posted (startCamera [7] 500 initial_state)"
    using capture_failure_is_retried [where s = "camera_ready (initial_page 4)"
      and b = no_dimensions and now = 1000 and a = "startCamera [7] 500 initial_state"
      and e = "Error ''Video dimensions not available''" and now' = 1000]
    by (simp add: captureFrame_app_no_dimensions startCamera_fields MIN_FRAME_INTERVAL_def)
  have 4: "captureFrame_app empty_payload = Inr ([], ovalData_app empty_payload) \<and>
   posted (processFrame empty_payload 1000 1000 (startCamera [7] 500 initial_state)) =
     posted (startCamera [7] 500 initial_state) \<and>
   state_currentState
     (processFrame empty_payload 1000 1000 (startCamera [7] 500 initial_state)) = WAITING"
    using capture_failure_is_retried [where s = "camera_ready (initial_page 4)"
      and b = empty_payload and now = 1000 and a = "startCamera [7] 500 initial_state"
      and e = "Error ''Video dimensions not available''" and now' = 1000]
    by (simp add: startCamera_fields empty_payload_fields MIN_FRAME_INTERVAL_def)
  from 1 2 3 4 show ?thesis by blast
qed

text \<open>
  In the configurable script a cycle that finds the video without dimensions moves the
  phase from Waiting to Error, and a cycle whose encoder returns an empty payload, which
  the monitoring script takes as no frame, arms no retry and leaves \<open>isProcessing\<close> set.
\<close>

theorem capture_failure_enters_error:
  "captureFrame_app no_dimensions = Inl (Error ''Video dimensions not available'') \<and>
   state_currentState (startCamera [7] 500 initial_state) = WAITING \<and>
   state_currentState
     (processFrame no_dimensions 1000 1000 (startCamera [7] 500 initial_state)) = ERROR \<and>
   captureFrame empty_payload = Inr None \<and>
   captureFrame_app empty_payload = Inr ([], ovalData_app empty_payload) \<and>
   scheduled (startCamera [7] 500 initial_state) = [] \<and>
   scheduled (processFrame empty_payload 1000 1000 (startCamera [7] 500 initial_state)) = [] \<and>
   state_isProcessing
     (processFrame empty_payload 1000 1000 (startCamera [7] 500 initial_state))"
proof -
  have "state_currentState
     (processFrame no_dimensions 1000 1000 (startCamera [7] 500 initial_state)) = ERROR"
    unfolding processFrame_def Let_def
    by (simp add: captureFrame_app_no_dimensions startCamera_fields MIN_FRAME_INTERVAL_def)
       (simp add: updateUI_def startCamera_fields)
  moreover have "processFrame empty_payload 1000 1000 (startCamera [7] 500 initial_state) =
      (startCamera [7] 500 initial_state)\<lparr>state_isProcessing := True\<rparr>"
    by (rule processFrame_capture_returns [OF _ _ _ captureFrame_app_empty_payload])
       (simp_all add: startCamera_fields MIN_FRAME_INTERVAL_def)
  ultimately show ?thesis
    by (simp add: captureFrame_app_no_dimensions captureFrame_empty_payload
        captureFrame_app_empty_payload startCamera_fields)
qed

subsection \<open>Releasing the camera\<close>

lemma trackStops_updateFacePosition:
  "trackStops (updateFacePosition t r s) = trackStops s"
  by (auto simp: updateFacePosition_def not_live_branch_def resetUI_inner_def live_branch_def
      Let_def updateProgress_def notifyFlutter_def clearTimeout_def split: option.splits)

lemma trackStops_after_try: "trackStops (after_try s) = trackStops s"
  by (simp add: after_try_def schedule_next_fields)

lemma trackStops_catch_block: "trackStops (catch_block m t s) = trackStops s"
  by (simp add: catch_block_def Let_def notifyFlutter_def resetUI_def)

lemma trackStops_sessionExpired: "trackStops (sessionExpired t s) = trackStops s"
  by (auto simp: sessionExpired_def handleTimeout_def Let_def notifyFlutter_def clearTimeout_def
      split: option.splits)

lemma trackStops_resume: "trackStops (startAuthentication_resume resp t s) = trackStops s"
  by (auto simp: startAuthentication_resume_def trackStops_after_try trackStops_catch_block
      schedule_next_fields trackStops_updateFacePosition notifyFlutter_def
      split: response.splits option.splits)

lemma trackStops_startAuthentication:
  "trackStops (startAuthentication b resp t t' s) = trackStops s"
  by (auto simp: startAuthentication_def startAuthentication_begin_def trackStops_resume
      trackStops_after_try trackStops_catch_block schedule_next_fields
      split: cycle.splits sum.splits option.splits if_splits)

lemma set_fold_track_stop: "set (fold track_stop xs e) = set e \<union> set xs"
  by (induction xs arbitrary: e) (auto simp: track_stop_def)

lemma fold_track_stop_ended: "set xs \<subseteq> set e \<Longrightarrow> fold track_stop xs e = e"
  by (induction xs arbitrary: e) (auto simp: track_stop_def)

lemma distinct_fold_track_stop: "distinct e \<Longrightarrow> distinct (fold track_stop xs e)"
  by (induction xs arbitrary: e) (auto simp: track_stop_def)

lemma ended_updateUI: "ended (updateUI t st m h a) = ended a"
  by (simp add: updateUI_def)

lemma stream_updateUI: "state_stream (updateUI t st m h a) = state_stream a"
  by (simp add: updateUI_def)

lemma ended_processFrame: "ended (processFrame b t t' a) = ended a"
  unfolding processFrame_def Let_def
  by (auto simp: ended_updateUI split: sum.splits)

lemma ended_startCamera: "ended (startCamera tracks t a) = ended a"
  by (simp add: startCamera_def ended_updateUI)

lemma ended_handleSuccessfulAuthentication:
  "ended (handleSuccessfulAuthentication b name now a) =
     (if truthy name then fold track_stop (held_tracks a) (ended a) else ended a)"
  unfolding handleSuccessfulAuthentication_def Let_def held_tracks_def
  by (auto simp: ended_updateUI stream_updateUI split: option.splits)

lemma stream_handleSuccessfulAuthentication:
  "state_stream (handleSuccessfulAuthentication b name now a) = state_stream a"
  unfolding handleSuccessfulAuthentication_def Let_def
  by (auto simp: stream_updateUI split: option.splits)

lemma second_release:
  assumes "truthy name"
  shows "ended (handleSuccessfulAuthentication b2 name2 now2
            (handleSuccessfulAuthentication b name now a)) =
         ended (handleSuccessfulAuthentication b name now a)"
proof -
  let ?a' = "handleSuccessfulAuthentication b name now a"
  have "held_tracks ?a' = held_tracks a"
    by (simp add: held_tracks_def stream_handleSuccessfulAuthentication)
  moreover have "set (held_tracks a) \<subseteq> set (ended ?a')"
    using assms by (simp add: ended_handleSuccessfulAuthentication set_fold_track_stop)
  ultimately have "fold track_stop (held_tracks ?a') (ended ?a') = ended ?a'"
    by (simp add: fold_track_stop_ended)
  then show ?thesis
    by (simp add: ended_handleSuccessfulAuthentication [of b2 name2 now2 ?a'])
qed

text \<open>
  Claim C9, as the scripts have it. In the configurable script
  \<^verbatim>\<open>handleSuccessfulAuthentication\<close> with a name that is not empty stops every
  track of the stream it holds, ends no track twice and keeps the stream; a second call
  leaves every track as it is. Without a name it does nothing, and
  \<^verbatim>\<open>updateUI\<close>, \<^verbatim>\<open>processFrame\<close> and \<^verbatim>\<open>startCamera\<close> stop no
  track. In the monitoring script no verdict, timeout or cycle stops a track.
\<close>

theorem tracks_stopped_on_success:
  "(truthy name \<longrightarrow>
      ended (handleSuccessfulAuthentication b name now a) =
        fold track_stop (held_tracks a) (ended a) \<and>
      set (held_tracks a) \<subseteq> set (ended (handleSuccessfulAuthentication b name now a)) \<and>
      (distinct (ended a) \<longrightarrow>
         distinct (ended (handleSuccessfulAuthentication b name now a))) \<and>
      state_stream (handleSuccessfulAuthentication b name now a) = state_stream a \<and>
      ended (handleSuccessfulAuthentication b2 name2 now2
               (handleSuccessfulAuthentication b name now a)) =
        ended (handleSuccessfulAuthentication b name now a)) \<and>
   (\<not> truthy name \<longrightarrow> handleSuccessfulAuthentication b name now a = a) \<and>
   ended (updateUI t st m h a) = ended a \<and>
   ended (processFrame b t t' a) = ended a \<and>
   ended (startCamera tracks t a) = ended a \<and>
   trackStops (updateFacePosition t r s) = trackStops s \<and>
   trackStops (sessionExpired t s) = trackStops s \<and>
   trackStops (startAuthentication b resp t t' s) = trackStops s"
proof -
  have "\<not> truthy name \<Longrightarrow> handleSuccessfulAuthentication b name now a = a"
    by (simp add: handleSuccessfulAuthentication_def)
  then show ?thesis
    using second_release [of name b2 name2 now2 b now a]
    by (simp add: ended_handleSuccessfulAuthentication [of b name now a]
        stream_handleSuccessfulAuthentication set_fold_track_stop distinct_fold_track_stop
        ended_updateUI ended_processFrame ended_startCamera trackStops_updateFacePosition
        trackStops_sessionExpired trackStops_startAuthentication)
qed

theorem tracks_stopped_on_success_witness:
  "truthy (Some ''Ann Lee'') \<and> \<not> truthy None \<and>
   held_tracks (startCamera [7] 500 initial_state) = [7] \<and>
   ended (startCamera [7] 500 initial_state) = [] \<and>
   ended (handleSuccessfulAuthentication shown_video (Some ''Ann Lee'') 1000
      (startCamera [7] 500 initial_state)) = [7] \<and>
   state_stream (handleSuccessfulAuthentication shown_video (Some ''Ann Lee'') 1000
      (startCamera [7] 500 initial_state)) = Some [7] \<and>
   ended (handleSuccessfulAuthentication shown_video (Some ''Ann Lee'') 2000
      (handleSuccessfulAuthentication shown_video (Some ''Ann Lee'') 1000
         (startCamera [7] 500 initial_state))) = [7] \<and>
   handleSuccessfulAuthentication shown_video None 1000 (startCamera [7] 500 initial_state) =
     startCamera [7] 500 initial_state"
  using tracks_stopped_on_success [where name = "Some ''Ann Lee''" and b = shown_video
      and now = 1000 and a = "startCamera [7] 500 initial_state"
      and ?b2.0 = shown_video and ?name2.0 = "Some ''Ann Lee''" and ?now2.0 = 2000]
    tracks_stopped_on_success [where name = None and b = shown_video
      and now = 1000 and a = "startCamera [7] 500 initial_state"]
  by (simp add: truthy_def startCamera_fields held_tracks_def track_stop_def)

text \<open>
  In the monitoring script five live verdicts reach Authenticated and no track has been
  stopped.
\<close>

theorem authenticated_with_camera_running:
  "currentState (feed five_live (camera_ready (initial_page 4))) = AUTHENTICATED \<and>
   trackStops (feed five_live (camera_ready (initial_page 4))) = 0"
  by (simp add: feed_five_live)

subsection \<open>After a capture that succeeds\<close>

text \<open>
  Claim C10. When the script is running, no cycle is in progress, the frame interval
  has passed and the capture succeeds, \<^verbatim>\<open>processFrame\<close> only sets
  \<open>isProcessing\<close>: nothing is posted, no timer is armed, and the frame counter, the
  phase and the time of the last processed frame stay as they were. Every later call
  returns at once, so the loop has stopped.
\<close>

theorem processFrame_halts_after_capture:
  assumes "state_isRunning a" and "\<not> state_isProcessing a"
    and "int MIN_FRAME_INTERVAL \<le> now - state_lastProcessedTime a"
    and "captureFrame_app b = Inr frame"
  shows "processFrame b now now' a = a\<lparr>state_isProcessing := True\<rparr> \<and>
         posted (processFrame b now now' a) = posted a \<and>
         scheduled (processFrame b now now' a) = scheduled a \<and>
         state_framesCollected (processFrame b now now' a) = state_framesCollected a \<and>
         state_currentState (processFrame b now now' a) = state_currentState a \<and>
         state_lastProcessedTime (processFrame b now now' a) = state_lastProcessedTime a \<and>
         state_isProcessing (processFrame b now now' a) \<and>
         processFrame b2 t t' (processFrame b now now' a) = processFrame b now now' a"
proof -
  have eq: "processFrame b now now' a = a\<lparr>state_isProcessing := True\<rparr>"
    using assms unfolding processFrame_def Let_def by simp
  have "processFrame b2 t t' (a\<lparr>state_isProcessing := True\<rparr>) =
          a\<lparr>state_isProcessing := True\<rparr>"
    unfolding processFrame_def by simp
  with eq show ?thesis by simp
qed

theorem processFrame_halts_after_capture_witness:
  "state_isRunning (startCamera [7] 500 initial_state) \<and>
   \<not> state_isProcessing (startCamera [7] 500 initial_state) \<and>
   int MIN_FRAME_INTERVAL \<le> 1000 - state_lastProcessedTime (startCamera [7] 500 initial_state) \<and>
   captureFrame_app shown_video =
     Inr (''data:image/jpeg;base64,AAAA'', ovalData_app shown_video) \<and>
   processFrame shown_video 1000 1000 (startCamera [7] 500 initial_state) =
     (startCamera [7] 500 initial_state)\<lparr>state_isProcessing := True\<rparr> \<and>
   scheduled (processFrame shown_video 1000 1000 (startCamera [7] 500 initial_state)) = [] \<and>
   processFrame shown_video 1300 1300
     (processFrame shown_video 1000 1000 (startCamera [7] 500 initial_state)) =
   processFrame shown_video 1000 1000 (startCamera [7] 500 initial_state)"
  using processFrame_halts_after_capture [where a = "startCamera [7] 500 initial_state"
      and now = 1000 and b = shown_video
      and frame = "(''data:image/jpeg;base64,AAAA'', ovalData_app shown_video)"
      and now' = 1000 and ?b2.0 = shown_video and t = 1300 and t' = 1300]
  by (simp add: captureFrame_app_shown_video startCamera_fields MIN_FRAME_INTERVAL_def)
     (simp add: processFrame_def)

end
